theory Spec2Isabelle
  imports Complex_Main "HOL-Library.Sublist" "HOL-Library.Log_Nat"
begin

section \<open>The memory relevance ranker of \<^verbatim>\<open>src/services/geminiService.ts\<close>\<close>

text \<open>
  The function \<^verbatim>\<open>getRelevantMemories(query, memories, limit)\<close> is embedded as a HOL function,
  with the data of the TypeScript source represented as follows.

  \<^item> A JavaScript string is a \<open>string\<close>, one \<open>char\<close> per UTF-16 code unit, the \<open>char\<close> with
    code \<open>n\<close> standing for the code unit \<open>U+00nn\<close>. Strings with code units above \<open>U+00FF\<close>
    are outside the model.
  \<^item> \<^verbatim>\<open>limit: number\<close> is an \<open>int\<close> (the integral values of the parameter).
  \<^item> A JavaScript number is the rational that the IEEE-754 double denotes, and every
    arithmetic operation of the source rounds its exact result to the nearest double, ties
    to even (\<open>binary64\<close>). The range of the exponent is not modelled: no value of the function
    leaves it unless a list has more than \<open>2 ^ 1022\<close> memories or a word more than
    \<open>2 ^ 1000\<close> characters. Lengths and indices are
    integers below \<open>2 ^ 53\<close>, which are doubles. The one operation of the function that can
    leave the finite numbers is the division of the recency term, at a zero divisor, where
    JavaScript yields \<^verbatim>\<open>NaN\<close> or an infinity: the model's division returns \<open>None\<close> there, and
    so does every computation that uses its result.
  \<^item> The default value 5 of \<^verbatim>\<open>limit\<close> is the caller's business: the model takes the limit.
  \<^item> The object \<^verbatim>\<open>{ memory, score }\<close> is the record \<open>scored\<close>.
\<close>

subsection \<open>Strings\<close>

text \<open>\<^verbatim>\<open>String.prototype.toLowerCase\<close> on the code units up to \<open>U+00FF\<close>: the letters
  \<open>A\<close> to \<open>Z\<close> and \<open>U+00C0\<close> to \<open>U+00DE\<close>, the multiplication sign \<open>U+00D7\<close> apart, go to
  the code unit 32 higher; every other code unit stays.\<close>

definition upperCaseLetters :: string where
  "upperCaseLetters = ''ABCDEFGHIJKLMNOPQRSTUVWXYZ'' @
     [CHR 0xC0, CHR 0xC1, CHR 0xC2, CHR 0xC3, CHR 0xC4, CHR 0xC5, CHR 0xC6, CHR 0xC7,
      CHR 0xC8, CHR 0xC9, CHR 0xCA, CHR 0xCB, CHR 0xCC, CHR 0xCD, CHR 0xCE, CHR 0xCF,
      CHR 0xD0, CHR 0xD1, CHR 0xD2, CHR 0xD3, CHR 0xD4, CHR 0xD5, CHR 0xD6, CHR 0xD8,
      CHR 0xD9, CHR 0xDA, CHR 0xDB, CHR 0xDC, CHR 0xDD, CHR 0xDE]"

definition lowerCaseLetters :: string where
  "lowerCaseLetters = ''abcdefghijklmnopqrstuvwxyz'' @
     [CHR 0xE0, CHR 0xE1, CHR 0xE2, CHR 0xE3, CHR 0xE4, CHR 0xE5, CHR 0xE6, CHR 0xE7,
      CHR 0xE8, CHR 0xE9, CHR 0xEA, CHR 0xEB, CHR 0xEC, CHR 0xED, CHR 0xEE, CHR 0xEF,
      CHR 0xF0, CHR 0xF1, CHR 0xF2, CHR 0xF3, CHR 0xF4, CHR 0xF5, CHR 0xF6, CHR 0xF8,
      CHR 0xF9, CHR 0xFA, CHR 0xFB, CHR 0xFC, CHR 0xFD, CHR 0xFE]"

definition toLowerCaseChar :: "char \<Rightarrow> char" where
  "toLowerCaseChar c =
     (case map_of (zip upperCaseLetters lowerCaseLetters) c of
        None \<Rightarrow> c
      | Some l \<Rightarrow> l)"

definition toLowerCase :: "string \<Rightarrow> string" where
  "toLowerCase s = map toLowerCaseChar s"

text \<open>The regular-expression class \<^verbatim>\<open>\w\<close> is \<^verbatim>\<open>[A-Za-z0-9_]\<close>.\<close>

definition isWordChar :: "char \<Rightarrow> bool" where
  "isWordChar c =
     (c \<in> set ''ABCDEFGHIJKLMNOPQRSTUVWXYZabcdefghijklmnopqrstuvwxyz0123456789_'')"

text \<open>The class \<^verbatim>\<open>\s\<close> up to \<open>U+00FF\<close>: tab, line feed, vertical tab, form feed, carriage
  return, space and the no-break space \<open>U+00A0\<close>.\<close>

definition isSpaceChar :: "char \<Rightarrow> bool" where
  "isSpaceChar c =
     (c \<in> set [CHR 0x09, CHR 0x0A, CHR 0x0B, CHR 0x0C, CHR 0x0D, CHR '' '', CHR 0xA0])"

text \<open>\<^verbatim>\<open>.replace(/[^\w\s]/g, '')\<close> deletes every character that is neither.\<close>

definition stripNonWord :: "string \<Rightarrow> string" where
  "stripNonWord s = filter (\<lambda>c. isWordChar c \<or> isSpaceChar c) s"

text \<open>\<^verbatim>\<open>.split(/\s+/)\<close>: the pieces between the maximal runs of white space. A run at the
  start or at the end of the string leaves an empty piece there, and the empty string
  splits into one empty piece. The flag says that the previous character was white space,
  that is, that the separator being read has already closed a piece.\<close>

fun splitFrom :: "bool \<Rightarrow> string \<Rightarrow> string list" where
  "splitFrom inSeparator [] = ['''']"
| "splitFrom inSeparator (c # cs) =
     (if isSpaceChar c
      then (if inSeparator then splitFrom True cs else [] # splitFrom True cs)
      else (case splitFrom False cs of
              [] \<Rightarrow> [c # '''']
            | piece # pieces \<Rightarrow> (c # piece) # pieces))"

definition splitWhitespace :: "string \<Rightarrow> string list" where
  "splitWhitespace s = splitFrom False s"

text \<open>\<^verbatim>\<open>String.prototype.includes\<close>: the argument occurs as a contiguous piece.\<close>

fun includesStr :: "string \<Rightarrow> string \<Rightarrow> bool" where
  "includesStr [] w = (w = [])"
| "includesStr (c # cs) w = (prefix w (c # cs) \<or> includesStr cs w)"

subsection \<open>Numbers\<close>

text \<open>Rounding to the nearest integer, ties to the even one.\<close>

definition roundTiesToEven :: "rat \<Rightarrow> int" where
  "roundTiesToEven x =
     (let f = \<lfloor>x\<rfloor>; d = x - of_int f
      in if d < 1 / 2 then f else if 1 / 2 < d then f + 1 else if even f then f else f + 1)"

text \<open>The binary exponent of a positive rational \<open>x\<close>: the \<open>e\<close> with \<open>2 ^ e \<le> x < 2 ^ (e + 1)\<close>.
  The difference \<open>k\<close> of the bit lengths of numerator and denominator is this exponent or one
  more.\<close>

definition exponentOf :: "rat \<Rightarrow> int" where
  "exponentOf x =
     (case quotient_of x of (p, q) \<Rightarrow>
        let k = bitlen p - bitlen q in if 2 powi k \<le> x then k else k - 1)"

text \<open>The double nearest to a rational: 53 significant bits, that is, a multiple of the unit
  in the last place \<open>2 ^ (e - 52)\<close>, ties to the even multiple.\<close>

definition binary64 :: "rat \<Rightarrow> rat" where
  "binary64 x =
     (if x = 0 then 0
      else let ulp = 2 powi (exponentOf \<bar>x\<bar> - 52)
           in of_int (roundTiesToEven (x / ulp)) * ulp)"

text \<open>The four operations of JavaScript on numbers. Division is \<open>None\<close> at a zero divisor,
  where JavaScript leaves the finite numbers.\<close>

definition jsAdd :: "rat \<Rightarrow> rat \<Rightarrow> rat" where
  "jsAdd x y = binary64 (x + y)"

definition jsSubtract :: "rat \<Rightarrow> rat \<Rightarrow> rat" where
  "jsSubtract x y = binary64 (x - y)"

definition jsMultiply :: "rat \<Rightarrow> rat \<Rightarrow> rat" where
  "jsMultiply x y = binary64 (x * y)"

definition jsDivide :: "rat \<Rightarrow> rat \<Rightarrow> rat option" where
  "jsDivide x y = (if y = 0 then None else Some (binary64 (x / y)))"

subsection \<open>Arrays\<close>

text \<open>\<^verbatim>\<open>Array.prototype.slice(start, end)\<close> with integral arguments: a negative argument
  counts from the end, both are clamped to the array, and an empty range gives the
  empty array. \<^verbatim>\<open>slice(start)\<close> is \<^verbatim>\<open>slice(start, length)\<close>.\<close>

definition slice :: "int \<Rightarrow> int \<Rightarrow> 'a list \<Rightarrow> 'a list" where
  "slice start end xs =
     (let len = int (length xs);
          k = (if start < 0 then max (len + start) 0 else min start len);
          final = (if end < 0 then max (len + end) 0 else min end len)
      in take (nat (final - k)) (drop (nat k) xs))"

definition sliceFrom :: "int \<Rightarrow> 'a list \<Rightarrow> 'a list" where
  "sliceFrom start xs = slice start (int (length xs)) xs"

record scored =
  memory :: string
  score :: rat

text \<open>The comparator \<^verbatim>\<open>(a, b) => b.score - a.score\<close> and \<^verbatim>\<open>Array.prototype.sort\<close>, which is
  stable: an element goes before the elements that it must precede or that compare equal to
  it and came after it.\<close>

definition compareScore :: "scored \<Rightarrow> scored \<Rightarrow> rat" where
  "compareScore a b = jsSubtract (score b) (score a)"

fun insertSorted :: "scored \<Rightarrow> scored list \<Rightarrow> scored list" where
  "insertSorted a [] = [a]"
| "insertSorted a (b # bs) =
     (if compareScore a b \<le> 0 then a # b # bs else b # insertSorted a bs)"

definition sortScored :: "scored list \<Rightarrow> scored list" where
  "sortScored xs = foldr insertSorted xs []"

subsection \<open>The ranker\<close>

definition stopWords :: "string list" where
  "stopWords = [''the'', ''and'', ''for'', ''with'', ''that'', ''this'', ''from'', ''have'',
     ''what'', ''where'', ''when'', ''how'', ''who'', ''your'', ''mine'', ''about'', ''some'',
     ''they'', ''them'']"

text \<open>Lines 72 to 75: the query, tokenized and filtered.\<close>

definition queryWords :: "string \<Rightarrow> string list" where
  "queryWords query =
     filter (\<lambda>w. length w > 2 \<and> w \<notin> set stopWords)
       (splitWhitespace (stripNonWord (toLowerCase query)))"

text \<open>Lines 88 to 99: one round of the \<^verbatim>\<open>forEach\<close> loop, on the pair of the
  variables \<^verbatim>\<open>score\<close> (here \<open>sc\<close>, the name \<open>score\<close> being the field of the record) and
  \<^verbatim>\<open>matchCount\<close>. The constants \<^verbatim>\<open>memoryWords\<close> and \<^verbatim>\<open>memoryLower\<close> of the enclosing
  callback are parameters.\<close>

definition scoreWord :: "string list \<Rightarrow> string \<Rightarrow> string \<Rightarrow> rat \<times> nat \<Rightarrow> rat \<times> nat" where
  "scoreWord memoryWords memoryLower word acc =
     (case acc of (sc, matchCount) \<Rightarrow>
        if word \<in> set memoryWords
        then (jsAdd sc (jsMultiply (of_nat (length word)) 2), matchCount + 1)
        else if includesStr memoryLower word
        then (jsAdd sc (of_nat (length word)), matchCount + 1)
        else (sc, matchCount))"

text \<open>Lines 82 to 104: the two constants, the loop and the density boost. The literal
  \<^verbatim>\<open>0.2\<close> is the double nearest to one fifth.\<close>

definition lexicalScore :: "string list \<Rightarrow> string \<Rightarrow> rat" where
  "lexicalScore qws mem =
     (let memoryLower = toLowerCase mem;
          memoryWords = splitWhitespace (stripNonWord memoryLower)
      in case fold (scoreWord memoryWords memoryLower) qws (0, 0) of (sc, matchCount) \<Rightarrow>
           if matchCount > 1
           then jsMultiply sc (jsAdd 1 (jsMultiply (of_nat matchCount) (binary64 0.2)))
           else sc)"

text \<open>Line 108: \<^verbatim>\<open>(index / memories.length) * 5\<close>.\<close>

definition recencyFactor :: "nat \<Rightarrow> string list \<Rightarrow> rat option" where
  "recencyFactor index memories =
     (case jsDivide (of_nat index) (of_nat (length memories)) of
        None \<Rightarrow> None
      | Some ratio \<Rightarrow> Some (jsMultiply ratio 5))"

text \<open>Lines 81 to 112: the callback of \<^verbatim>\<open>memories.map\<close>, which \<^verbatim>\<open>map\<close> calls on every
  element with its index.\<close>

definition scoreMemory :: "string list \<Rightarrow> string list \<Rightarrow> string \<Rightarrow> nat \<Rightarrow> scored option" where
  "scoreMemory qws memories mem index =
     (case recencyFactor index memories of
        None \<Rightarrow> None
      | Some recency \<Rightarrow>
          Some \<lparr>memory = mem, score = jsAdd (lexicalScore qws mem) recency\<rparr>)"

definition scoredMemories :: "string list \<Rightarrow> string list \<Rightarrow> scored list option" where
  "scoredMemories qws memories =
     those (map (\<lambda>(index, mem). scoreMemory qws memories mem index) (enumerate 0 memories))"

text \<open>Lines 115 and 118: sorted by score, then those above 5, then their texts.\<close>

definition relevant :: "scored list \<Rightarrow> string list" where
  "relevant scoredList = map memory (filter (\<lambda>m. score m > 5) (sortScored scoredList))"

definition getRelevantMemories :: "string \<Rightarrow> string list \<Rightarrow> int \<Rightarrow> string list option" where
  "getRelevantMemories query memories limit =
     (if length memories = 0 then Some []
      else if length (queryWords query) = 0 then Some (sliceFrom (- limit) memories)
      else (case scoredMemories (queryWords query) memories of
              None \<Rightarrow> None
            | Some scoredList \<Rightarrow>
                if length (relevant scoredList) > 0
                then Some (slice 0 limit (relevant scoredList))
                else Some (sliceFrom (- 3) memories)))"

text \<open>The token list of a memory, \<^verbatim>\<open>memoryWords\<close> of lines 82 and 83, as a function of the
  memory: lowercased, stripped, split, and not filtered.\<close>

definition memoryTokens :: "string \<Rightarrow> string list" where
  "memoryTokens mem = splitWhitespace (stripNonWord (toLowerCase mem))"

text \<open>A query word matches a memory when the loop takes one of its two branches on it.\<close>

definition matchesWord :: "string \<Rightarrow> string \<Rightarrow> bool" where
  "matchesWord mem word =
     (word \<in> set (memoryTokens mem) \<or> includesStr (toLowerCase mem) word)"

subsection \<open>The score as the specification words it\<close>

text \<open>The specification gives the score of the memory at position \<open>i\<close> of \<open>N\<close> as a closed
  formula. It is written here from the specification's words, in the arithmetic of the code,
  to be compared with \<open>scoreMemory\<close>: a query token counts twice its length when it is an
  element of the memory's token list, else once its length when it occurs in the lowercased
  text, else nothing; the sum, taken from the first token on, is multiplied by
  \<open>1 + matchCount * 0.2\<close> when more than one token matched; the recency term \<open>(i / N) * 5\<close> is
  added.\<close>

definition spec_tokenScore :: "string \<Rightarrow> string \<Rightarrow> rat" where
  "spec_tokenScore mem w =
     (if w \<in> set (memoryTokens mem) then jsMultiply 2 (of_nat (length w))
      else if includesStr (toLowerCase mem) w then of_nat (length w)
      else 0)"

definition spec_matchCount :: "string list \<Rightarrow> string \<Rightarrow> nat" where
  "spec_matchCount qws mem =
     length (filter (\<lambda>w. w \<in> set (memoryTokens mem) \<or> includesStr (toLowerCase mem) w) qws)"

definition spec_score :: "string list \<Rightarrow> nat \<Rightarrow> nat \<Rightarrow> string \<Rightarrow> rat" where
  "spec_score qws N i mem =
     (let total = foldl jsAdd 0 (map (spec_tokenScore mem) qws);
          matchCount = spec_matchCount qws mem;
          boosted = (if matchCount > 1
                     then jsMultiply total (jsAdd 1 (jsMultiply (of_nat matchCount) (binary64 0.2)))
                     else total)
      in jsAdd boosted (jsMultiply (binary64 (of_nat i / of_nat N)) 5))"

section \<open>Auxiliary facts\<close>

subsection \<open>Rounding\<close>

lemma roundTiesToEven_of_int: "roundTiesToEven (of_int n) = n"
  by (simp add: roundTiesToEven_def)

lemma roundTiesToEven_mono: "x \<le> y \<Longrightarrow> roundTiesToEven x \<le> roundTiesToEven y"
proof -
  assume xy: "x \<le> y"
  have fl: "\<lfloor>x\<rfloor> \<le> \<lfloor>y\<rfloor>" using xy by (rule floor_mono)
  show ?thesis
  proof (cases "\<lfloor>x\<rfloor> = \<lfloor>y\<rfloor>")
    case True
    then have "x - of_int \<lfloor>x\<rfloor> \<le> y - of_int \<lfloor>y\<rfloor>" using xy by simp
    then show ?thesis using True by (auto simp: roundTiesToEven_def Let_def)
  next
    case False
    then have "\<lfloor>x\<rfloor> + 1 \<le> \<lfloor>y\<rfloor>" using fl by simp
    moreover have "roundTiesToEven x \<le> \<lfloor>x\<rfloor> + 1" by (auto simp: roundTiesToEven_def Let_def)
    moreover have "\<lfloor>y\<rfloor> \<le> roundTiesToEven y" by (auto simp: roundTiesToEven_def Let_def)
    ultimately show ?thesis by linarith
  qed
qed


lemma exponentOf_bounds:
  assumes "0 < x"
  shows "2 powi exponentOf x \<le> x" and "x < 2 powi (exponentOf x + 1)"
proof -
  obtain p q where pq: "quotient_of x = (p, q)" by (cases "quotient_of x")
  then have q: "0 < q" and x: "x = of_int p / of_int q"
    using quotient_of_denom_pos quotient_of_div by auto
  then have p: "0 < p" using assms by (simp add: zero_less_divide_iff)
  define a where "a = bitlen p"
  define b where "b = bitlen q"
  have a: "2 ^ nat (a - 1) \<le> p" "p < 2 ^ nat a" using bitlen_bounds [OF p] by (simp_all add: a_def)
  have b: "2 ^ nat (b - 1) \<le> q" "q < 2 ^ nat b" using bitlen_bounds [OF q] by (simp_all add: b_def)
  have a1: "1 \<le> a" using p a(2) by (cases "a \<le> 0") (auto simp: not_le)
  have b1: "1 \<le> b" using q b(2) by (cases "b \<le> 0") (auto simp: not_le)
  have pa: "(2::rat) powi (a - 1) \<le> of_int p" "of_int p < (2::rat) powi a"
  proof -
    have "(of_int (2 ^ nat (a - 1)) :: rat) \<le> of_int p" using a(1) by (simp only: of_int_le_iff)
    then show "(2::rat) powi (a - 1) \<le> of_int p" using a1 by (simp add: power_int_def)
    have "(of_int p :: rat) < of_int (2 ^ nat a)" using a(2) by (simp only: of_int_less_iff)
    then show "of_int p < (2::rat) powi a" using a1 by (simp add: power_int_def)
  qed
  have qb: "(2::rat) powi (b - 1) \<le> of_int q" "of_int q < (2::rat) powi b"
  proof -
    have "(of_int (2 ^ nat (b - 1)) :: rat) \<le> of_int q" using b(1) by (simp only: of_int_le_iff)
    then show "(2::rat) powi (b - 1) \<le> of_int q" using b1 by (simp add: power_int_def)
    have "(of_int q :: rat) < of_int (2 ^ nat b)" using b(2) by (simp only: of_int_less_iff)
    then show "of_int q < (2::rat) powi b" using b1 by (simp add: power_int_def)
  qed
  have qpos: "(0::rat) < of_int q" using q by simp
  have lower: "(2::rat) powi (a - b - 1) < x"
  proof -
    have "(2::rat) powi (a - b - 1) * of_int q < 2 powi (a - b - 1) * 2 powi b"
      using qb(2) by (intro mult_strict_left_mono) simp_all
    also have "\<dots> = 2 powi (a - 1)" by (simp flip: power_int_add)
    also have "\<dots> \<le> of_int p" by (rule pa(1))
    finally show ?thesis using qpos by (simp add: x pos_less_divide_eq)
  qed
  have upper: "x < (2::rat) powi (a - b + 1)"
  proof -
    have "of_int p < (2::rat) powi a" by (rule pa(2))
    also have "\<dots> = 2 powi (a - b + 1) * 2 powi (b - 1)" by (simp flip: power_int_add)
    also have "\<dots> \<le> 2 powi (a - b + 1) * of_int q"
      using qb(1) by (intro mult_left_mono) simp_all
    finally show ?thesis using qpos by (simp add: x pos_divide_less_eq)
  qed
  have e: "exponentOf x = (if 2 powi (a - b) \<le> x then a - b else a - b - 1)"
    by (simp add: exponentOf_def pq a_def b_def Let_def)
  show "2 powi exponentOf x \<le> x" using lower by (simp add: e)
  show "x < 2 powi (exponentOf x + 1)" using upper by (auto simp: e not_le)
qed


lemma two_powi_less_iff: "(2::rat) powi m < 2 powi n \<longleftrightarrow> m < n"
proof
  assume "(2::rat) powi m < 2 powi n"
  show "m < n"
  proof (rule ccontr)
    assume "\<not> m < n"
    then have "(2::rat) powi n \<le> 2 powi m" by (intro power_int_increasing) simp_all
    with \<open>(2::rat) powi m < 2 powi n\<close> show False by simp
  qed
next
  assume "m < n"
  then show "(2::rat) powi m < 2 powi n" by (intro power_int_strict_increasing) simp_all
qed

lemma binary64_nonzero:
  "x \<noteq> 0 \<Longrightarrow> binary64 x =
     of_int (roundTiesToEven (x / 2 powi (exponentOf \<bar>x\<bar> - 52))) * 2 powi (exponentOf \<bar>x\<bar> - 52)"
  by (simp add: binary64_def Let_def)

lemma exponentOf_unique:
  assumes "0 < x" and "2 powi e \<le> x" and "x < 2 powi (e + 1)"
  shows "exponentOf x = e"
proof -
  have "(2::rat) powi exponentOf x < 2 powi (e + 1)"
    using exponentOf_bounds(1) [OF assms(1)] assms(3) by simp
  then have 1: "exponentOf x < e + 1" by (simp only: two_powi_less_iff)
  have "(2::rat) powi e < 2 powi (exponentOf x + 1)"
    using exponentOf_bounds(2) [OF assms(1)] assms(2) by simp
  then have "e < exponentOf x + 1" by (simp only: two_powi_less_iff)
  with 1 show ?thesis by simp
qed

lemma exponentOf_mono:
  assumes "0 < x" and "x \<le> y"
  shows "exponentOf x \<le> exponentOf y"
proof -
  have "(2::rat) powi exponentOf x < 2 powi (exponentOf y + 1)"
    using exponentOf_bounds(1) [OF assms(1)] exponentOf_bounds(2) [of y] assms by simp
  then have "exponentOf x < exponentOf y + 1" by (simp only: two_powi_less_iff)
  then show ?thesis by simp
qed

text \<open>A positive number and its double lie in the same binade, ends included.\<close>

lemma binary64_pos_bounds:
  assumes "0 < x"
  shows "2 powi exponentOf x \<le> binary64 x" and "binary64 x \<le> 2 powi (exponentOf x + 1)"
proof -
  define e where "e = exponentOf x"
  define u :: rat where "u = 2 powi (e - 52)"
  have u: "0 < u" by (simp add: u_def)
  have fl: "binary64 x = of_int (roundTiesToEven (x / u)) * u"
    using assms by (simp add: binary64_nonzero e_def u_def)
  have lo: "of_int (2 ^ 52) \<le> x / u"
  proof -
    have "of_int (2 ^ 52) * u = (2::rat) powi e"
      by (simp add: u_def power_int_diff)
    then show ?thesis using exponentOf_bounds(1) [OF assms] u
      by (simp add: e_def pos_le_divide_eq)
  qed
  have hi: "x / u \<le> of_int (2 ^ 53)"
  proof -
    have "of_int (2 ^ 53) * u = (2::rat) powi (e + 1)"
      by (simp add: u_def power_int_diff power_int_add)
    then show ?thesis using exponentOf_bounds(2) [OF assms] u
      by (simp add: e_def pos_divide_le_eq)
  qed
  have "2 ^ 52 \<le> roundTiesToEven (x / u)"
    using roundTiesToEven_mono [OF lo] by (simp only: roundTiesToEven_of_int)
  then have "(of_int (2 ^ 52) :: rat) \<le> of_int (roundTiesToEven (x / u))"
    by (simp only: of_int_le_iff)
  then have "of_int (2 ^ 52) * u \<le> of_int (roundTiesToEven (x / u)) * u"
    using u by (intro mult_right_mono) simp_all
  then show "2 powi exponentOf x \<le> binary64 x"
    by (simp add: fl u_def e_def power_int_diff)
  have "roundTiesToEven (x / u) \<le> 2 ^ 53"
    using roundTiesToEven_mono [OF hi] by (simp only: roundTiesToEven_of_int)
  then have "(of_int (roundTiesToEven (x / u)) :: rat) \<le> of_int (2 ^ 53)"
    by (simp only: of_int_le_iff)
  then have "of_int (roundTiesToEven (x / u)) * u \<le> of_int (2 ^ 53) * u"
    using u by (intro mult_right_mono) simp_all
  then show "binary64 x \<le> 2 powi (exponentOf x + 1)"
    by (simp add: fl u_def e_def power_int_diff power_int_add)
qed

lemma binary64_pos: "0 < x \<Longrightarrow> 0 < binary64 x"
  using binary64_pos_bounds(1) [of x] zero_less_power_int [of "2::rat" "exponentOf x"]
  by linarith

lemma binary64_mono_pos:
  assumes "0 < x" and "x \<le> y"
  shows "binary64 x \<le> binary64 y"
proof (cases "exponentOf x = exponentOf y")
  case True
  define u :: rat where "u = 2 powi (exponentOf x - 52)"
  have u: "0 < u" by (simp add: u_def)
  have "x / u \<le> y / u" using assms(2) u by (simp add: divide_right_mono)
  then have "roundTiesToEven (x / u) \<le> roundTiesToEven (y / u)" by (rule roundTiesToEven_mono)
  then have "(of_int (roundTiesToEven (x / u)) :: rat) * u \<le> of_int (roundTiesToEven (y / u)) * u"
    using u by (intro mult_right_mono) simp_all
  then show ?thesis using assms True by (simp add: binary64_nonzero u_def)
next
  case False
  have y: "0 < y" using assms by simp
  from False exponentOf_mono [OF assms] have "exponentOf x + 1 \<le> exponentOf y" by simp
  then have "(2::rat) powi (exponentOf x + 1) \<le> 2 powi exponentOf y"
    by (intro power_int_increasing) simp_all
  then show ?thesis
    using binary64_pos_bounds(2) [OF assms(1)] binary64_pos_bounds(1) [OF y] by linarith
qed

lemma binary64_mono:
  assumes "0 \<le> x" and "x \<le> y"
  shows "binary64 x \<le> binary64 y"
proof (cases "x = 0")
  case True
  then show ?thesis using assms binary64_pos [of y] by (cases "y = 0") (simp_all add: binary64_def)
next
  case False
  then show ?thesis using assms binary64_mono_pos by simp
qed


lemma binary64_neg: assumes "x < 0" shows "binary64 x < 0"
proof -
  define u :: rat where "u = 2 powi (exponentOf \<bar>x\<bar> - 52)"
  have u: "0 < u" by (simp add: u_def)
  have "2 powi exponentOf \<bar>x\<bar> \<le> \<bar>x\<bar>" using exponentOf_bounds(1) [of "\<bar>x\<bar>"] assms by simp
  then have "of_int (2 ^ 52) * u \<le> - x" using assms by (simp add: u_def power_int_diff)
  then have "x \<le> of_int (- (2 ^ 52)) * u" by simp
  then have "x / u \<le> of_int (- (2 ^ 52))" using u by (simp only: pos_divide_le_eq)
  from roundTiesToEven_mono [OF this] have "roundTiesToEven (x / u) \<le> - (2 ^ 52)"
    by (simp only: roundTiesToEven_of_int)
  then have "roundTiesToEven (x / u) < 0" by simp
  then have "(of_int (roundTiesToEven (x / u)) :: rat) < 0" by simp
  then have "of_int (roundTiesToEven (x / u)) * u < 0" using u by (simp add: mult_neg_pos)
  then show ?thesis using assms by (simp add: binary64_nonzero u_def)
qed

lemma binary64_zero [simp]: "binary64 0 = 0"
  by (simp add: binary64_def)

lemma binary64_sign: "binary64 x \<le> 0 \<longleftrightarrow> x \<le> 0"
proof (cases "x = 0")
  case True then show ?thesis by simp
next
  case False
  then consider "x < 0" | "0 < x" by linarith
  then show ?thesis
  proof cases
    case 1 then show ?thesis using binary64_neg [of x] by simp
  next
    case 2 then show ?thesis using binary64_pos [of x] by simp
  qed
qed

lemma binary64_idem:
  assumes "0 \<le> x"
  shows "binary64 (binary64 x) = binary64 x"
proof (cases "x = 0")
  case True then show ?thesis by (simp add: binary64_def)
next
  case False
  then have x: "0 < x" using assms by simp
  define e where "e = exponentOf x"
  define u :: rat where "u = 2 powi (e - 52)"
  define r where "r = roundTiesToEven (x / u)"
  define y where "y = binary64 x"
  have u: "0 < u" by (simp add: u_def)
  have y: "y = of_int r * u" using x by (simp add: y_def binary64_nonzero r_def u_def e_def)
  have ypos: "0 < y" using binary64_pos [OF x] by (simp add: y_def)
  have lo: "2 powi e \<le> y" using binary64_pos_bounds(1) [OF x] by (simp add: y_def e_def)
  have hi: "y \<le> 2 powi (e + 1)" using binary64_pos_bounds(2) [OF x] by (simp add: y_def e_def)
  show ?thesis
  proof (cases "y = 2 powi (e + 1)")
    case True
    have "y < 2 powi (e + 1 + 1)" unfolding True by (intro power_int_strict_increasing) simp_all
    then have ey: "exponentOf y = e + 1"
      using True ypos by (intro exponentOf_unique) simp_all
    have "(2::rat) powi (e + 1) = 2 powi (e + 1 - 52) * of_int (2 ^ 52)"
      by (simp add: power_int_diff power_int_add)
    then have "y / 2 powi (e + 1 - 52) = of_int (2 ^ 52)"
      unfolding True by (simp only: nonzero_mult_div_cancel_left power_int_eq_0_iff) simp
    then have "binary64 y = of_int (2 ^ 52) * 2 powi (e + 1 - 52)"
      using ypos ey by (simp add: binary64_nonzero roundTiesToEven_of_int del: of_int_numeral of_int_power)
    also have "\<dots> = y" unfolding True by (simp add: power_int_diff power_int_add)
    finally show ?thesis by (simp add: y_def)
  next
    case False
    then have "y < 2 powi (e + 1)" using hi by simp
    then have ey: "exponentOf y = e" using lo ypos by (intro exponentOf_unique) simp_all
    have "y / u = of_int r" using u by (simp add: y)
    then have "binary64 y = of_int r * u"
      using ypos ey by (simp add: binary64_nonzero roundTiesToEven_of_int u_def)
    with y have "binary64 y = y" by linarith
    then show ?thesis unfolding y_def .
  qed
qed

subsection \<open>The operations on numbers\<close>

lemma binary64_exact:
  "binary64 1 = 1"
  "binary64 5 = 5"
  "binary64 (1 - 1 / 2 ^ 53) = 1 - 1 / 2 ^ 53"
  "binary64 (5 - 5 / 2 ^ 53) = 5 - 1 / 2 ^ 50"
  by code_simp+

lemma binary64_nonneg: "0 \<le> x \<Longrightarrow> 0 \<le> binary64 x"
  using binary64_mono [of 0 x] by simp

lemma jsAdd_nonneg: "0 \<le> x \<Longrightarrow> 0 \<le> y \<Longrightarrow> 0 \<le> jsAdd x y"
  by (simp add: jsAdd_def binary64_nonneg)

lemma jsMultiply_nonneg: "0 \<le> x \<Longrightarrow> 0 \<le> y \<Longrightarrow> 0 \<le> jsMultiply x y"
  by (simp add: jsMultiply_def binary64_nonneg)

lemma jsAdd_idem: "0 \<le> x \<Longrightarrow> 0 \<le> y \<Longrightarrow> binary64 (jsAdd x y) = jsAdd x y"
  by (simp add: jsAdd_def binary64_idem)

lemma compareScore_le_0: "compareScore a b \<le> 0 \<longleftrightarrow> score b \<le> score a"
  by (simp add: compareScore_def jsSubtract_def binary64_sign)

subsection \<open>Strings and arrays\<close>

lemma includesStr_sublist: "includesStr s w = sublist w s"
  by (induction s) (simp_all add: sublist_Cons_right)

lemma those_map_Some:
  "(\<And>x. x \<in> set xs \<Longrightarrow> f x = Some (g x)) \<Longrightarrow> those (map f xs) = Some (map g xs)"
  by (induction xs) simp_all

lemma set_slice: "set (slice start end xs) \<subseteq> set xs"
  by (auto simp: slice_def Let_def dest: in_set_takeD in_set_dropD)

lemma set_sliceFrom: "set (sliceFrom start xs) \<subseteq> set xs"
  by (simp add: sliceFrom_def set_slice)

lemma sliceFrom_0: "sliceFrom 0 xs = xs"
  by (simp add: sliceFrom_def slice_def)

lemma sliceFrom_negative:
  "0 < n \<Longrightarrow> sliceFrom (- n) xs = drop (length xs - nat n) xs"
  by (simp add: sliceFrom_def slice_def Let_def max_def nat_diff_distrib')

lemma slice_0_nonneg: "0 \<le> limit \<Longrightarrow> slice 0 limit xs = take (nat limit) xs"
  by (auto simp: slice_def Let_def min_def)

lemma length_slice_0: "0 < limit \<Longrightarrow> int (length (slice 0 limit xs)) \<le> limit"
  by (auto simp: slice_def Let_def min_def)

subsection \<open>The sort\<close>

text \<open>The sort is the stable insertion sort of the library, by descending score.\<close>

lemma insertSorted_insort_key: "insertSorted a bs = insort_key (\<lambda>m. - score m) a bs"
  by (induction bs) (simp_all add: compareScore_le_0)

lemma sortScored_sort_key: "sortScored xs = sort_key (\<lambda>m. - score m) xs"
  by (induction xs) (simp_all add: sortScored_def insertSorted_insort_key)

lemma set_sortScored: "set (sortScored xs) = set xs"
  by (simp add: sortScored_sort_key)



lemma set_relevant: "set (relevant sl) = memory ` {s \<in> set sl. 5 < score s}"
  by (auto simp: relevant_def set_sortScored)

lemma relevant_Nil_iff: "relevant sl = [] \<longleftrightarrow> (\<forall>s \<in> set sl. \<not> 5 < score s)"
proof -
  have "relevant sl = [] \<longleftrightarrow> set (relevant sl) = {}"
    by simp
  also have "\<dots> \<longleftrightarrow> (\<forall>s \<in> set sl. \<not> 5 < score s)"
    unfolding set_relevant by blast
  finally show ?thesis .
qed

subsection \<open>The recency term\<close>

lemma recencyFactor_Some:
  "index < length memories \<Longrightarrow>
     recencyFactor index memories =
       Some (jsMultiply (binary64 (of_nat index / of_nat (length memories))) 5)"
  by (cases memories) (simp_all add: recencyFactor_def jsDivide_def)

lemma ratio_bounds:
  assumes "index < length memories"
  shows "0 \<le> binary64 (of_nat index / of_nat (length memories))"
    and "binary64 (of_nat index / of_nat (length memories)) \<le> 1"
proof -
  have "(0::rat) \<le> of_nat index / of_nat (length memories)"
    by simp
  moreover have "(of_nat index :: rat) / of_nat (length memories) \<le> 1"
    using assms by (simp add: divide_le_eq)
  ultimately show "0 \<le> binary64 (of_nat index / of_nat (length memories))"
    and "binary64 (of_nat index / of_nat (length memories)) \<le> 1"
    using binary64_mono [of "of_nat index / of_nat (length memories)" 1]
    by (simp_all add: binary64_nonneg binary64_exact)
qed

lemma recency_bounds:
  assumes "index < length memories"
  shows "0 \<le> jsMultiply (binary64 (of_nat index / of_nat (length memories))) 5"
    and "jsMultiply (binary64 (of_nat index / of_nat (length memories))) 5 \<le> 5"
proof -
  let ?a = "binary64 (of_nat index / of_nat (length memories))"
  have a: "0 \<le> ?a" "?a \<le> 1"
    using ratio_bounds [OF assms] by simp_all
  then show "0 \<le> jsMultiply ?a 5"
    by (simp add: jsMultiply_nonneg)
  have "0 \<le> ?a * 5" "?a * 5 \<le> 5"
    using a by simp_all
  then have "binary64 (?a * 5) \<le> binary64 5"
    by (rule binary64_mono)
  then show "jsMultiply ?a 5 \<le> 5"
    by (simp add: jsMultiply_def binary64_exact)
qed

text \<open>A length of JavaScript is an integer below \<open>2 ^ 53\<close> (and the length of an array is
  below \<open>2 ^ 32\<close>), and then the recency term stays below 5: the quotient is at most the
  largest double below 1.\<close>

lemma recency_below_5:
  assumes "index < length memories" and "length memories < 2 ^ 53"
  shows "jsMultiply (binary64 (of_nat index / of_nat (length memories))) 5 < 5"
proof -
  let ?N = "of_nat (length memories) :: rat"
  let ?a = "binary64 (of_nat index / ?N)"
  have N: "0 < ?N" "?N \<le> 2 ^ 53"
  proof -
    show "0 < ?N" using assms(1) by (cases memories) simp_all
    have "(of_nat (length memories) :: rat) \<le> of_nat (2 ^ 53)"
      using assms(2) by (simp only: of_nat_le_iff)
    then show "?N \<le> 2 ^ 53" by simp
  qed
  have "(of_nat index :: rat) + 1 \<le> ?N"
  proof -
    have "(of_nat (index + 1) :: rat) \<le> of_nat (length memories)"
      using assms(1) by (simp only: of_nat_le_iff)
    then show ?thesis by simp
  qed
  then have "of_nat index / ?N \<le> (?N - 1) / ?N"
    using N(1) by (simp add: divide_right_mono)
  also have "\<dots> = 1 - 1 / ?N"
    using N(1) by (simp add: field_simps)
  also have "\<dots> \<le> 1 - 1 / 2 ^ 53"
  proof -
    have "1 / (2 ^ 53 :: rat) \<le> 1 / ?N"
      using N by (intro divide_left_mono) simp_all
    then show ?thesis by simp
  qed
  finally have "of_nat index / ?N \<le> 1 - 1 / 2 ^ 53" .
  moreover have "(0::rat) \<le> of_nat index / ?N"
    by simp
  ultimately have "?a \<le> binary64 (1 - 1 / 2 ^ 53)"
    by (intro binary64_mono)
  then have a: "?a \<le> 1 - 1 / 2 ^ 53"
    by (simp only: binary64_exact)
  have "0 \<le> ?a"
    using ratio_bounds(1) [OF assms(1)] .
  then have "0 \<le> ?a * 5" "?a * 5 \<le> 5 - 5 / 2 ^ 53"
    using a by simp_all
  then have "binary64 (?a * 5) \<le> binary64 (5 - 5 / 2 ^ 53)"
    by (rule binary64_mono)
  then have "jsMultiply ?a 5 \<le> 5 - 1 / 2 ^ 50"
    by (simp only: jsMultiply_def binary64_exact)
  then show ?thesis
    by simp
qed

subsection \<open>The scores\<close>

text \<open>The array that \<^verbatim>\<open>memories.map\<close> returns: no division fails, since the callback runs
  at the indices of the array only.\<close>

lemma scoredMemories_eq:
  "scoredMemories qws memories =
     Some (map (\<lambda>(index, mem).
                 \<lparr>memory = mem,
                  score = jsAdd (lexicalScore qws mem)
                            (jsMultiply (binary64 (of_nat index / of_nat (length memories))) 5)\<rparr>)
            (enumerate 0 memories))"
  unfolding scoredMemories_def
proof (rule those_map_Some)
  fix x assume "x \<in> set (enumerate 0 memories)"
  then have "fst x < length memories"
    by (simp add: in_set_enumerate_eq)
  then show "(case x of (index, mem) \<Rightarrow> scoreMemory qws memories mem index) =
             Some (case x of (index, mem) \<Rightarrow>
                     \<lparr>memory = mem,
                      score = jsAdd (lexicalScore qws mem)
                                (jsMultiply
                                   (binary64 (of_nat index / of_nat (length memories))) 5)\<rparr>)"
    by (cases x) (simp add: scoreMemory_def recencyFactor_Some)
qed

lemma scoredMemories_nth:
  assumes "scoredMemories qws memories = Some sl" and "i < length memories"
  shows "sl ! i =
           \<lparr>memory = memories ! i,
            score = jsAdd (lexicalScore qws (memories ! i))
                      (jsMultiply (binary64 (of_nat i / of_nat (length memories))) 5)\<rparr>"
    and "length sl = length memories"
  using assms by (auto simp: scoredMemories_eq nth_enumerate_eq)

lemma memories_of_scored:
  "scoredMemories qws memories = Some sl \<Longrightarrow> memory ` set sl \<subseteq> set memories"
  by (auto simp: scoredMemories_eq in_set_enumerate_eq)

text \<open>The loop as a whole: the score is the sum of the contributions of the query words, from
  the first on, and \<^verbatim>\<open>matchCount\<close> is the number of entries of the query-word list that
  match, each entry counted.\<close>

lemma spec_tokenScore_nonneg: "0 \<le> spec_tokenScore mem w"
  by (simp add: spec_tokenScore_def jsMultiply_nonneg)

lemma fold_scoreWord:
  assumes "0 \<le> sc" and "binary64 sc = sc"
  shows "fold (scoreWord (memoryTokens mem) (toLowerCase mem)) qws (sc, mc) =
     (foldl jsAdd sc (map (spec_tokenScore mem) qws), mc + length (filter (matchesWord mem) qws))"
  using assms
proof (induction qws arbitrary: sc mc)
  case Nil
  then show ?case by simp
next
  case (Cons w qws)
  let ?t = "spec_tokenScore mem w"
  have t: "0 \<le> ?t"
    by (rule spec_tokenScore_nonneg)
  have next_ok: "0 \<le> jsAdd sc ?t" "binary64 (jsAdd sc ?t) = jsAdd sc ?t"
    using Cons.prems(1) t by (simp_all add: jsAdd_nonneg jsAdd_idem)
  show ?case
  proof (cases "matchesWord mem w")
    case True
    then have "scoreWord (memoryTokens mem) (toLowerCase mem) w (sc, mc) = (jsAdd sc ?t, mc + 1)"
      by (auto simp: scoreWord_def spec_tokenScore_def matchesWord_def jsMultiply_def
            mult.commute)
    then show ?thesis
      using True Cons.IH [OF next_ok] by simp
  next
    case False
    then have step: "scoreWord (memoryTokens mem) (toLowerCase mem) w (sc, mc) = (sc, mc)"
      and zero: "?t = 0"
      by (auto simp: scoreWord_def spec_tokenScore_def matchesWord_def)
    have "jsAdd sc ?t = sc"
      using Cons.prems(2) by (simp add: zero jsAdd_def)
    then show ?thesis
      using False step Cons.IH [OF Cons.prems] by simp
  qed
qed

lemma foldl_jsAdd_nonneg:
  "0 \<le> sc \<Longrightarrow> (\<And>t. t \<in> set ts \<Longrightarrow> 0 \<le> t) \<Longrightarrow> 0 \<le> foldl jsAdd sc ts"
  by (induction ts arbitrary: sc) (simp_all add: jsAdd_nonneg)

lemma lexicalScore_eq:
  "lexicalScore qws mem =
     (if 1 < length (filter (matchesWord mem) qws)
      then jsMultiply (foldl jsAdd 0 (map (spec_tokenScore mem) qws))
             (jsAdd 1 (jsMultiply (of_nat (length (filter (matchesWord mem) qws))) (binary64 0.2)))
      else foldl jsAdd 0 (map (spec_tokenScore mem) qws))"
proof -
  have "lexicalScore qws mem =
      (case fold (scoreWord (memoryTokens mem) (toLowerCase mem)) qws (0, 0) of
         (sc, matchCount) \<Rightarrow>
           if matchCount > 1
           then jsMultiply sc (jsAdd 1 (jsMultiply (of_nat matchCount) (binary64 0.2)))
           else sc)"
    by (simp add: lexicalScore_def memoryTokens_def Let_def)
  then show ?thesis
    by (simp add: fold_scoreWord)
qed

lemma lexicalScore_nonneg: "0 \<le> lexicalScore qws mem"
proof -
  have total: "0 \<le> foldl jsAdd 0 (map (spec_tokenScore mem) qws)"
    by (rule foldl_jsAdd_nonneg) (auto simp: spec_tokenScore_nonneg)
  have "(0::rat) \<le> binary64 0.2"
    by (rule binary64_nonneg) simp
  then have "0 \<le> jsAdd 1 (jsMultiply (of_nat n) (binary64 0.2))" for n
    by (simp add: jsAdd_nonneg jsMultiply_nonneg)
  then show ?thesis
    using total by (simp add: lexicalScore_eq jsMultiply_nonneg)
qed

lemma lexicalScore_unmatched:
  assumes "\<forall>w \<in> set qws. \<not> matchesWord mem w"
  shows "lexicalScore qws mem = 0"
proof -
  have "filter (matchesWord mem) qws = []"
    using assms by (simp add: filter_empty_conv)
  moreover have "foldl jsAdd 0 (map (spec_tokenScore mem) qws) = 0"
    using assms
    by (induction qws) (simp_all add: spec_tokenScore_def matchesWord_def jsAdd_def)
  ultimately show ?thesis
    by (simp add: lexicalScore_eq)
qed

text \<open>A memory that no query word matches scores its recency term, at most 5.\<close>

lemma score_unmatched_le_5:
  assumes "index < length memories"
  shows "jsAdd 0 (jsMultiply (binary64 (of_nat index / of_nat (length memories))) 5) \<le> 5"
proof -
  let ?r = "jsMultiply (binary64 (of_nat index / of_nat (length memories))) 5"
  have "0 \<le> ?r" "?r \<le> 5"
    using recency_bounds [OF assms] by simp_all
  then have "binary64 ?r \<le> binary64 5"
    by (rule binary64_mono)
  then show ?thesis
    by (simp add: jsAdd_def binary64_exact)
qed




subsection \<open>Evaluations\<close>

text \<open>The examples of the claims, evaluated in steps: the query words, the score of each
  memory, the scored list, the ranked texts and the result.\<close>

lemma scenario_queryWords:
  "queryWords ''Tell me about the user's job'' = [''tell'', ''users'', ''job'']"
  by code_simp

lemma scenario_scoreMemory:
  "scoreMemory [''tell'', ''users'', ''job'']
     [''User likes coffee'', ''User is a software engineer'', ''User lives in Paris'', ''User prefers concise answers'', ''User dislikes spicy food'']
     ''User likes coffee'' 0 =
     Some \<lparr>memory = ''User likes coffee'', score = 0\<rparr>"
  "scoreMemory [''tell'', ''users'', ''job'']
     [''User likes coffee'', ''User is a software engineer'', ''User lives in Paris'', ''User prefers concise answers'', ''User dislikes spicy food'']
     ''User is a software engineer'' (Suc 0) =
     Some \<lparr>memory = ''User is a software engineer'', score = 1\<rparr>"
  "scoreMemory [''tell'', ''users'', ''job'']
     [''User likes coffee'', ''User is a software engineer'', ''User lives in Paris'', ''User prefers concise answers'', ''User dislikes spicy food'']
     ''User lives in Paris'' (Suc (Suc 0)) =
     Some \<lparr>memory = ''User lives in Paris'', score = 2\<rparr>"
  "scoreMemory [''tell'', ''users'', ''job'']
     [''User likes coffee'', ''User is a software engineer'', ''User lives in Paris'', ''User prefers concise answers'', ''User dislikes spicy food'']
     ''User prefers concise answers'' (Suc (Suc (Suc 0))) =
     Some \<lparr>memory = ''User prefers concise answers'', score = 3\<rparr>"
  "scoreMemory [''tell'', ''users'', ''job'']
     [''User likes coffee'', ''User is a software engineer'', ''User lives in Paris'', ''User prefers concise answers'', ''User dislikes spicy food'']
     ''User dislikes spicy food'' (Suc (Suc (Suc (Suc 0)))) =
     Some \<lparr>memory = ''User dislikes spicy food'', score = 4\<rparr>"
  by code_simp+

lemma scenario_scoredMemories:
  "scoredMemories [''tell'', ''users'', ''job'']
     [''User likes coffee'', ''User is a software engineer'', ''User lives in Paris'', ''User prefers concise answers'', ''User dislikes spicy food''] =
     Some [\<lparr>memory = ''User likes coffee'', score = 0\<rparr>,
           \<lparr>memory = ''User is a software engineer'', score = 1\<rparr>,
           \<lparr>memory = ''User lives in Paris'', score = 2\<rparr>,
           \<lparr>memory = ''User prefers concise answers'', score = 3\<rparr>,
           \<lparr>memory = ''User dislikes spicy food'', score = 4\<rparr>]"
  by (simp add: scoredMemories_def scenario_scoreMemory)

lemma scenario_relevant:
  "relevant [\<lparr>memory = ''User likes coffee'', score = 0\<rparr>,
            \<lparr>memory = ''User is a software engineer'', score = 1\<rparr>,
            \<lparr>memory = ''User lives in Paris'', score = 2\<rparr>,
            \<lparr>memory = ''User prefers concise answers'', score = 3\<rparr>,
            \<lparr>memory = ''User dislikes spicy food'', score = 4\<rparr>] = []"
  by (simp add: relevant_Nil_iff)

lemma scenario_result:
  "getRelevantMemories ''Tell me about the user's job''
     [''User likes coffee'', ''User is a software engineer'', ''User lives in Paris'', ''User prefers concise answers'', ''User dislikes spicy food''] 5 =
     Some [''User lives in Paris'', ''User prefers concise answers'',
           ''User dislikes spicy food'']"
  by (simp add: getRelevantMemories_def scenario_queryWords scenario_scoredMemories
        scenario_relevant sliceFrom_negative)

lemma widget_queryWords: "queryWords ''widget'' = [''widget'']"
  by code_simp

lemma widget_pair_scoreMemory:
  "scoreMemory [''widget'']
     [''widget one'', ''widget two'']
     ''widget one'' 0 =
     Some \<lparr>memory = ''widget one'', score = 12\<rparr>"
  "scoreMemory [''widget'']
     [''widget one'', ''widget two'']
     ''widget two'' (Suc 0) =
     Some \<lparr>memory = ''widget two'', score = 29 / 2\<rparr>"
  by code_simp+

lemma widget_pair_scoredMemories:
  "scoredMemories [''widget'']
     [''widget one'', ''widget two''] =
     Some [\<lparr>memory = ''widget one'', score = 12\<rparr>,
           \<lparr>memory = ''widget two'', score = 29 / 2\<rparr>]"
  by (simp add: scoredMemories_def widget_pair_scoreMemory)

lemma widget_pair_relevant:
  "relevant [\<lparr>memory = ''widget one'', score = 12\<rparr>, \<lparr>memory = ''widget two'', score = 29 / 2\<rparr>] =
     [''widget two'', ''widget one'']"
  by code_simp

lemma widget_pair_result:
  "getRelevantMemories ''widget'' [''widget one'', ''widget two''] 1 = Some [''widget two'']"
  by (simp add: getRelevantMemories_def widget_queryWords widget_pair_scoredMemories
        widget_pair_relevant slice_0_nonneg)



lemma widget_other_scoreMemory:
  "scoreMemory [''widget'']
     [''widget one'', ''other'']
     ''widget one'' 0 =
     Some \<lparr>memory = ''widget one'', score = 12\<rparr>"
  "scoreMemory [''widget'']
     [''widget one'', ''other'']
     ''other'' (Suc 0) =
     Some \<lparr>memory = ''other'', score = 5 / 2\<rparr>"
  by code_simp+

lemma widget_other_scoredMemories:
  "scoredMemories [''widget'']
     [''widget one'', ''other''] =
     Some [\<lparr>memory = ''widget one'', score = 12\<rparr>,
           \<lparr>memory = ''other'', score = 5 / 2\<rparr>]"
  by (simp add: scoredMemories_def widget_other_scoreMemory)

lemma widget_other_relevant:
  "relevant [\<lparr>memory = ''widget one'', score = 12\<rparr>, \<lparr>memory = ''other'', score = 5 / 2\<rparr>] =
     [''widget one'']"
  by code_simp

lemma widget_other_result:
  "getRelevantMemories ''widget'' [''widget one'', ''other''] 5 = Some [''widget one'']"
  by (simp add: getRelevantMemories_def widget_queryWords widget_other_scoredMemories
        widget_other_relevant slice_0_nonneg)

lemma zebra_queryWords: "queryWords ''zebra'' = [''zebra'']"
  by code_simp

lemma zebra_scoreMemory:
  "scoreMemory [''zebra'']
     [''a'', ''b'', ''c'', ''d'']
     ''a'' 0 =
     Some \<lparr>memory = ''a'', score = 0\<rparr>"
  "scoreMemory [''zebra'']
     [''a'', ''b'', ''c'', ''d'']
     ''b'' (Suc 0) =
     Some \<lparr>memory = ''b'', score = 5 / 4\<rparr>"
  "scoreMemory [''zebra'']
     [''a'', ''b'', ''c'', ''d'']
     ''c'' (Suc (Suc 0)) =
     Some \<lparr>memory = ''c'', score = 5 / 2\<rparr>"
  "scoreMemory [''zebra'']
     [''a'', ''b'', ''c'', ''d'']
     ''d'' (Suc (Suc (Suc 0))) =
     Some \<lparr>memory = ''d'', score = 15 / 4\<rparr>"
  by code_simp+

lemma zebra_scoredMemories:
  "scoredMemories [''zebra'']
     [''a'', ''b'', ''c'', ''d''] =
     Some [\<lparr>memory = ''a'', score = 0\<rparr>,
           \<lparr>memory = ''b'', score = 5 / 4\<rparr>,
           \<lparr>memory = ''c'', score = 5 / 2\<rparr>,
           \<lparr>memory = ''d'', score = 15 / 4\<rparr>]"
  by (simp add: scoredMemories_def zebra_scoreMemory)

lemma zebra_result:
  "getRelevantMemories ''zebra'' [''a'', ''b'', ''c'', ''d''] 1 = Some [''b'', ''c'', ''d'']"
  by (simp add: getRelevantMemories_def zebra_queryWords zebra_scoredMemories
        relevant_Nil_iff sliceFrom_negative)

lemma gadget_queryWords: "queryWords ''widget gadget'' = [''widget'', ''gadget'']"
  by code_simp

lemma gadget_scoreMemory:
  "scoreMemory [''widget'', ''gadget'']
     [''one widget'', ''gadgets and widget'']
     ''one widget'' 0 =
     Some \<lparr>memory = ''one widget'', score = 12\<rparr>"
  "scoreMemory [''widget'', ''gadget'']
     [''one widget'', ''gadgets and widget'']
     ''gadgets and widget'' (Suc 0) =
     Some \<lparr>memory = ''gadgets and widget'', score = 7796856854885171 / 281474976710656\<rparr>"
  by code_simp+

lemma gadget_scoredMemories:
  "scoredMemories [''widget'', ''gadget'']
     [''one widget'', ''gadgets and widget''] =
     Some [\<lparr>memory = ''one widget'', score = 12\<rparr>,
           \<lparr>memory = ''gadgets and widget'', score = 7796856854885171 / 281474976710656\<rparr>]"
  by (simp add: scoredMemories_def gadget_scoreMemory)

lemma widget_twice_queryWords: "queryWords ''widget widget'' = [''widget'', ''widget'']"
  by code_simp

lemma widget_twice_matches: "matchesWord ''widget one'' ''widget''"
  by code_simp

lemma widget_twice_fold:
  "fold (scoreWord (memoryTokens ''widget one'') (toLowerCase ''widget one''))
     [''widget'', ''widget''] (0, 0) = (24, 2)"
  by code_simp

lemma widget_twice_multiplier:
  "jsMultiply 24 (jsAdd 1 (jsMultiply 2 (binary64 0.2))) = 1182194902184755 / 35184372088832"
  by code_simp

lemma widget_twice_lexicalScore:
  "lexicalScore [''widget'', ''widget''] ''widget one'' =
     jsMultiply 24 (jsAdd 1 (jsMultiply 2 (binary64 0.2)))"
  using widget_twice_fold by (simp add: lexicalScore_def memoryTokens_def Let_def)

section \<open>The claims\<close>

subsection \<open>The scenario of the specification\<close>

text \<open>
  Claim C1, as the code has it. The memories are \<open>User likes coffee\<close>,
  \<open>User is a software engineer\<close>, \<open>User lives in Paris\<close>, \<open>User prefers concise answers\<close> and
  \<open>User dislikes spicy food\<close>, the query is \<open>Tell me about the user's job\<close> and the limit is 5.
  Stripping the apostrophe turns \<open>user's\<close> into the token \<open>users\<close>, so the query words are
  \<open>tell\<close>, \<open>users\<close> and \<open>job\<close>. None of them is a word of a memory or occurs in one, the
  scores are the recency terms 0, 1, 2, 3 and 4, no memory is above 5, and the result is the
  no-match fallback: the last three memories in their original order.
\<close>

theorem scenario_returns_last_three:
  "queryWords ''Tell me about the user's job'' = [''tell'', ''users'', ''job''] \<and>
   scoredMemories (queryWords ''Tell me about the user's job'')
     [''User likes coffee'', ''User is a software engineer'', ''User lives in Paris'',
      ''User prefers concise answers'', ''User dislikes spicy food''] =
     Some [\<lparr>memory = ''User likes coffee'', score = 0\<rparr>,
           \<lparr>memory = ''User is a software engineer'', score = 1\<rparr>,
           \<lparr>memory = ''User lives in Paris'', score = 2\<rparr>,
           \<lparr>memory = ''User prefers concise answers'', score = 3\<rparr>,
           \<lparr>memory = ''User dislikes spicy food'', score = 4\<rparr>] \<and>
   getRelevantMemories ''Tell me about the user's job''
     [''User likes coffee'', ''User is a software engineer'', ''User lives in Paris'',
      ''User prefers concise answers'', ''User dislikes spicy food''] 5 =
     Some [''User lives in Paris'', ''User prefers concise answers'',
           ''User dislikes spicy food'']"
  using scenario_queryWords scenario_scoredMemories scenario_result
  by (simp only: simp_thms)

text \<open>Claim C1 as the specification states it fails on all three counts: the result is not the
  reversed list, it does not contain \<open>User is a software engineer\<close>, and the five scores are
  0 to 4, none above 5.\<close>

theorem scenario_not_reversed_list:
  "getRelevantMemories ''Tell me about the user's job''
     [''User likes coffee'', ''User is a software engineer'', ''User lives in Paris'',
      ''User prefers concise answers'', ''User dislikes spicy food''] 5 \<noteq>
     Some (rev [''User likes coffee'', ''User is a software engineer'', ''User lives in Paris'',
      ''User prefers concise answers'', ''User dislikes spicy food'']) \<and>
   ''User is a software engineer'' \<notin>
     set (the (getRelevantMemories ''Tell me about the user's job''
       [''User likes coffee'', ''User is a software engineer'', ''User lives in Paris'',
      ''User prefers concise answers'', ''User dislikes spicy food''] 5)) \<and>
   map score (the (scoredMemories (queryWords ''Tell me about the user's job'')
       [''User likes coffee'', ''User is a software engineer'', ''User lives in Paris'',
      ''User prefers concise answers'', ''User dislikes spicy food''])) = [0, 1, 2, 3, 4]"
  by (simp add: scenario_queryWords scenario_scoredMemories scenario_result)

subsection \<open>The score\<close>

text \<open>
  Claim C2. When the query has usable tokens, the score computed for the memory at position
  \<open>i\<close> of a list of length \<open>N\<close> is the specification's formula, in the arithmetic of the code:
  the sum over the query tokens of twice the length for an exact element of the memory's
  token list, else the length for a substring of the lowercased text, else nothing; times
  \<open>1 + matchCount * 0.2\<close> exactly when \<open>matchCount > 1\<close>; plus \<open>(i / N) * 5\<close>.
\<close>

theorem score_is_spec_formula:
  assumes "queryWords query \<noteq> []" and "i < length memories"
  shows "\<exists>sl. scoredMemories (queryWords query) memories = Some sl \<and>
              length sl = length memories \<and>
              memory (sl ! i) = memories ! i \<and>
              score (sl ! i) = spec_score (queryWords query) (length memories) i (memories ! i)"
proof -
  have "spec_matchCount qws mem = length (filter (matchesWord mem) qws)" for qws mem
    unfolding spec_matchCount_def matchesWord_def ..
  then have "jsAdd (lexicalScore qws mem) (jsMultiply (binary64 (of_nat i / of_nat N)) 5) =
      spec_score qws N i mem"
    for qws mem N
    by (simp add: lexicalScore_eq spec_score_def Let_def)
  then show ?thesis
    using assms(2) by (simp add: scoredMemories_eq nth_enumerate_eq)
qed

text \<open>The witness has the scores of the code: \<open>18 * 1.4 + 2.5\<close> is the double printed as
  \<open>27.7\<close>, which is not the rational \<open>277 / 10\<close>.\<close>

theorem score_is_spec_formula_witness:
  "queryWords ''widget gadget'' \<noteq> [] \<and>
   1 < length [''one widget'', ''gadgets and widget''] \<and>
   (\<exists>sl. scoredMemories (queryWords ''widget gadget'') [''one widget'', ''gadgets and widget'']
            = Some sl \<and>
          length sl = length [''one widget'', ''gadgets and widget''] \<and>
          memory (sl ! 1) = [''one widget'', ''gadgets and widget''] ! 1 \<and>
          score (sl ! 1) =
            spec_score (queryWords ''widget gadget'')
              (length [''one widget'', ''gadgets and widget'']) 1
              ([''one widget'', ''gadgets and widget''] ! 1)) \<and>
   scoredMemories (queryWords ''widget gadget'') [''one widget'', ''gadgets and widget''] =
     Some [\<lparr>memory = ''one widget'', score = 12\<rparr>,
           \<lparr>memory = ''gadgets and widget'', score = 7796856854885171 / 281474976710656\<rparr>] \<and>
   spec_score (queryWords ''widget gadget'') 2 1 ''gadgets and widget'' =
     7796856854885171 / 281474976710656 \<and>
   (7796856854885171 / 281474976710656 :: rat) \<noteq> 277 / 10"
proof -
  have h1: "queryWords ''widget gadget'' \<noteq> []"
    by (simp add: gadget_queryWords)
  have h2: "1 < length [''one widget'', ''gadgets and widget'']"
    by simp
  have h3: "scoredMemories (queryWords ''widget gadget'')
      [''one widget'', ''gadgets and widget''] =
     Some [\<lparr>memory = ''one widget'', score = 12\<rparr>,
           \<lparr>memory = ''gadgets and widget'', score = 7796856854885171 / 281474976710656\<rparr>]"
    by (simp add: gadget_queryWords gadget_scoredMemories)
  from score_is_spec_formula [OF h1 h2] obtain sl where
    sl: "scoredMemories (queryWords ''widget gadget'') [''one widget'', ''gadgets and widget'']
           = Some sl"
      "score (sl ! 1) =
         spec_score (queryWords ''widget gadget'')
           (length [''one widget'', ''gadgets and widget'']) 1
           ([''one widget'', ''gadgets and widget''] ! 1)"
    by blast
  from sl(1) h3 have "sl = [\<lparr>memory = ''one widget'', score = 12\<rparr>,
      \<lparr>memory = ''gadgets and widget'', score = 7796856854885171 / 281474976710656\<rparr>]"
    by simp
  then have computed: "score (sl ! 1) = 7796856854885171 / 281474976710656"
    by simp
  have same: "spec_score (queryWords ''widget gadget'')
        (length [''one widget'', ''gadgets and widget'']) 1
        ([''one widget'', ''gadgets and widget''] ! 1) =
      spec_score (queryWords ''widget gadget'') 2 1 ''gadgets and widget''"
    by (simp add: numeral_2_eq_2)
  have h4: "spec_score (queryWords ''widget gadget'') 2 1 ''gadgets and widget'' =
      7796856854885171 / 281474976710656"
    using sl(2) computed same by metis
  have h5: "(7796856854885171 / 281474976710656 :: rat) \<noteq> 277 / 10"
    by simp
  show ?thesis
    using h1 h2 h3 h4 h5 score_is_spec_formula [OF h1 h2] by blast
qed

text \<open>
  Claim C6, as the code has it. The density multiplier \<open>1 + matchCount * 0.2\<close> is applied
  exactly when more than one entry of the filtered query-token list matches the memory,
  every entry counted, a repeated token as often as it occurs: \<^verbatim>\<open>matchCount\<close> is the number
  of matching entries, and the query words are never deduplicated. So a query whose token
  list holds the same token twice does get the multiplier, \<open>1 + 2 * 0.2\<close>, on a memory that
  matches this token.
\<close>

theorem density_bonus_counts_repeated_tokens:
  "snd (fold (scoreWord (memoryTokens mem) (toLowerCase mem)) qws (0, 0)) =
     length (filter (matchesWord mem) qws) \<and>
   lexicalScore qws mem =
     (if 1 < length (filter (matchesWord mem) qws)
      then jsMultiply (fst (fold (scoreWord (memoryTokens mem) (toLowerCase mem)) qws (0, 0)))
             (jsAdd 1 (jsMultiply (of_nat (length (filter (matchesWord mem) qws)))
                         (binary64 0.2)))
      else fst (fold (scoreWord (memoryTokens mem) (toLowerCase mem)) qws (0, 0))) \<and>
   (matchesWord mem w \<longrightarrow>
      lexicalScore [w, w] mem =
        jsMultiply (fst (fold (scoreWord (memoryTokens mem) (toLowerCase mem)) [w, w] (0, 0)))
          (jsAdd 1 (jsMultiply 2 (binary64 0.2))))"
proof -
  have "lexicalScore qws mem =
      (if 1 < length (filter (matchesWord mem) qws)
       then jsMultiply (fst (fold (scoreWord (memoryTokens mem) (toLowerCase mem)) qws (0, 0)))
              (jsAdd 1 (jsMultiply (of_nat (length (filter (matchesWord mem) qws)))
                          (binary64 0.2)))
       else fst (fold (scoreWord (memoryTokens mem) (toLowerCase mem)) qws (0, 0)))"
    for qws
    by (simp add: lexicalScore_eq fold_scoreWord del: fold_simps)
  from this [of qws] this [of "[w, w]"] show ?thesis
    by (simp add: fold_scoreWord del: fold_simps)
qed

theorem density_bonus_counts_repeated_tokens_witness:
  "matchesWord ''widget one'' ''widget'' \<and>
   snd (fold (scoreWord (memoryTokens ''widget one'') (toLowerCase ''widget one''))
          (queryWords ''widget widget'') (0, 0)) =
     length (filter (matchesWord ''widget one'') (queryWords ''widget widget'')) \<and>
   lexicalScore [''widget'', ''widget''] ''widget one'' =
     jsMultiply
       (fst (fold (scoreWord (memoryTokens ''widget one'') (toLowerCase ''widget one''))
               [''widget'', ''widget''] (0, 0)))
       (jsAdd 1 (jsMultiply 2 (binary64 0.2)))"
proof -
  have h: "matchesWord ''widget one'' ''widget''"
    by (rule widget_twice_matches)
  show ?thesis
    using h density_bonus_counts_repeated_tokens
      [of "''widget one''" "queryWords ''widget widget''" "''widget''"]
    by blast
qed

text \<open>Claim C6 as the specification states it fails: the query \<open>widget widget\<close> has the token
  list \<open>widget\<close>, \<open>widget\<close>; the memory \<open>widget one\<close> matches one distinct token, and yet
  \<^verbatim>\<open>matchCount\<close> is 2 and the sum 24 is multiplied by \<open>1 + 2 * 0.2\<close>, which gives the double
  printed as \<open>33.599999999999994\<close>.\<close>

theorem repeated_token_gets_density_bonus:
  "queryWords ''widget widget'' = [''widget'', ''widget''] \<and>
   length (remdups (filter (matchesWord ''widget one'') (queryWords ''widget widget''))) = 1 \<and>
   fold (scoreWord (memoryTokens ''widget one'') (toLowerCase ''widget one''))
     (queryWords ''widget widget'') (0, 0) = (24, 2) \<and>
   lexicalScore (queryWords ''widget widget'') ''widget one'' =
     jsMultiply 24 (jsAdd 1 (jsMultiply 2 (binary64 0.2))) \<and>
   lexicalScore (queryWords ''widget widget'') ''widget one'' =
     1182194902184755 / 35184372088832 \<and>
   lexicalScore (queryWords ''widget widget'') ''widget one'' \<noteq> 24"
proof -
  note tokens = widget_twice_queryWords
  have distinct: "length (remdups (filter (matchesWord ''widget one'')
      (queryWords ''widget widget''))) = 1"
    by (simp add: tokens widget_twice_matches)
  have count: "fold (scoreWord (memoryTokens ''widget one'') (toLowerCase ''widget one''))
      (queryWords ''widget widget'') (0, 0) = (24, 2)"
    unfolding tokens by (rule widget_twice_fold)
  have boosted: "lexicalScore (queryWords ''widget widget'') ''widget one'' =
      jsMultiply 24 (jsAdd 1 (jsMultiply 2 (binary64 0.2)))"
    unfolding tokens by (rule widget_twice_lexicalScore)
  have computed: "lexicalScore (queryWords ''widget widget'') ''widget one'' =
      1182194902184755 / 35184372088832"
    unfolding boosted by (rule widget_twice_multiplier)
  have "lexicalScore (queryWords ''widget widget'') ''widget one'' \<noteq> 24"
    unfolding computed by simp
  then show ?thesis
    using tokens distinct count boosted computed by blast
qed

subsection \<open>The paths of the function\<close>

text \<open>
  Claim C3. On the path that ranks (the query has usable tokens and some memory scores
  strictly above 5), every memory returned has a strictly positive lexical score, and some
  query token matches it, exactly or as a substring: the recency term of every position is
  at most 5, and strictly below 5 in every list whose length is a JavaScript length (below
  \<open>2 ^ 53\<close>; an array has fewer than \<open>2 ^ 32\<close> elements), so a score above 5 needs a lexical
  part.
\<close>

theorem surfaced_memory_has_lexical_match:
  assumes "queryWords query \<noteq> []"
    and "scoredMemories (queryWords query) memories = Some sl"
    and "\<exists>s \<in> set sl. 5 < score s"
    and "getRelevantMemories query memories limit = Some r"
    and "mem \<in> set r"
  shows "0 < lexicalScore (queryWords query) mem \<and>
         (\<exists>w \<in> set (queryWords query). matchesWord mem w) \<and>
         (\<forall>index < length memories. \<exists>recency.
            recencyFactor index memories = Some recency \<and> recency \<le> 5 \<and>
            (length memories < 2 ^ 53 \<longrightarrow> recency < 5))"
proof -
  have nonempty: "memories \<noteq> []"
    using assms(2,3) by (auto simp: scoredMemories_eq)
  have rel: "relevant sl \<noteq> []"
    using assms(3) by (simp add: relevant_Nil_iff)
  have "r = slice 0 limit (relevant sl)"
    using assms(1,2,4) nonempty rel by (simp add: getRelevantMemories_def)
  then have "mem \<in> set (relevant sl)"
    using assms(5) set_slice [of 0 limit "relevant sl"] by blast
  then obtain s where s: "s \<in> set sl" "5 < score s" "memory s = mem"
    by (auto simp: set_relevant)
  from s(1) obtain index where index: "index < length sl" "sl ! index = s"
    by (auto simp: in_set_conv_nth)
  have len: "length sl = length memories"
    using assms(2) by (auto simp: scoredMemories_eq)
  have inb: "index < length memories"
    using index(1) len by simp
  have s_eq: "s = \<lparr>memory = memories ! index,
                   score = jsAdd (lexicalScore (queryWords query) (memories ! index))
                     (jsMultiply (binary64 (of_nat index / of_nat (length memories))) 5)\<rparr>"
    using scoredMemories_nth(1) [OF assms(2) inb] index(2) by simp
  then have mem: "memories ! index = mem"
    using s(3) by simp
  have score: "score s = jsAdd (lexicalScore (queryWords query) mem)
      (jsMultiply (binary64 (of_nat index / of_nat (length memories))) 5)"
    using s_eq mem by simp
  have "lexicalScore (queryWords query) mem \<noteq> 0"
  proof
    assume "lexicalScore (queryWords query) mem = 0"
    then have "score s \<le> 5"
      using score score_unmatched_le_5 [OF inb] by simp
    then show False
      using s(2) by simp
  qed
  then have positive: "0 < lexicalScore (queryWords query) mem"
    using lexicalScore_nonneg [of "queryWords query" mem] by simp
  then have "\<exists>w \<in> set (queryWords query). matchesWord mem w"
    using lexicalScore_unmatched [of "queryWords query" mem] by fastforce
  moreover have "\<forall>index < length memories. \<exists>recency.
      recencyFactor index memories = Some recency \<and> recency \<le> 5 \<and>
      (length memories < 2 ^ 53 \<longrightarrow> recency < 5)"
    using recencyFactor_Some recency_bounds(2) recency_below_5 by blast
  ultimately show ?thesis
    using positive by simp
qed

theorem surfaced_memory_has_lexical_match_witness:
  "queryWords ''widget'' \<noteq> [] \<and>
   scoredMemories (queryWords ''widget'') [''widget one'', ''other''] =
     Some [\<lparr>memory = ''widget one'', score = 12\<rparr>, \<lparr>memory = ''other'', score = 5 / 2\<rparr>] \<and>
   (\<exists>s \<in> set [\<lparr>memory = ''widget one'', score = 12\<rparr>, \<lparr>memory = ''other'', score = 5 / 2\<rparr>].
      5 < score s) \<and>
   getRelevantMemories ''widget'' [''widget one'', ''other''] 5 = Some [''widget one''] \<and>
   ''widget one'' \<in> set [''widget one''] \<and>
   0 < lexicalScore (queryWords ''widget'') ''widget one'' \<and>
   (\<exists>w \<in> set (queryWords ''widget''). matchesWord ''widget one'' w) \<and>
   (\<exists>recency. recencyFactor 1 [''widget one'', ''other''] = Some recency \<and> recency < 5)"
proof -
  have h1: "queryWords ''widget'' \<noteq> []"
    by (simp add: widget_queryWords)
  have h2: "scoredMemories (queryWords ''widget'') [''widget one'', ''other''] =
     Some [\<lparr>memory = ''widget one'', score = 12\<rparr>, \<lparr>memory = ''other'', score = 5 / 2\<rparr>]"
    by (simp add: widget_queryWords widget_other_scoredMemories)
  have h3: "\<exists>s \<in> set [\<lparr>memory = ''widget one'', score = 12\<rparr>,
                       \<lparr>memory = ''other'', score = 5 / 2\<rparr>]. 5 < score s"
    by simp
  have h4: "getRelevantMemories ''widget'' [''widget one'', ''other''] 5 = Some [''widget one'']"
    by (rule widget_other_result)
  have h5: "''widget one'' \<in> set [''widget one'']"
    by simp
  have last_index: "1 < length [''widget one'', ''other'']"
    by simp
  have small: "length [''widget one'', ''other''] < 2 ^ 53"
    by simp
  show ?thesis
    using h1 h2 h3 h4 h5 last_index small
      surfaced_memory_has_lexical_match [OF h1 h2 h3 h4 h5]
    by blast
qed

text \<open>
  Claim C4. For a non-empty list of memories, a positive limit and a query that tokenizes to
  no usable token, the result is the last \<open>min limit N\<close> memories in their original order.
\<close>

theorem empty_query_returns_tail:
  assumes "memories \<noteq> []" and "0 < limit" and "queryWords query = []"
  shows "getRelevantMemories query memories limit =
           Some (drop (length memories - min (nat limit) (length memories)) memories)"
  using assms by (simp add: getRelevantMemories_def sliceFrom_negative min_def)

theorem empty_query_returns_tail_witness:
  "[''a'', ''b'', ''c''] \<noteq> [] \<and> (0::int) < 2 \<and> queryWords ''The and, for!'' = [] \<and>
   getRelevantMemories ''The and, for!'' [''a'', ''b'', ''c''] 2 = Some [''b'', ''c'']"
proof -
  have h1: "[''a'', ''b'', ''c''] \<noteq> ([] :: string list)"
    by simp
  have h2: "(0::int) < 2"
    by simp
  have h3: "queryWords ''The and, for!'' = []"
    by code_simp
  show ?thesis
    using h1 h2 h3 empty_query_returns_tail [OF h1 h2 h3] by simp
qed

text \<open>
  Claim C5. For a positive limit the result has at most \<open>limit\<close> elements, except on the
  no-match fallback path (the query has usable tokens and no memory scores strictly above
  5), where it has exactly \<open>min 3 N\<close> elements, whatever the limit.
\<close>

theorem result_length_bound:
  assumes "0 < limit"
  shows "\<exists>r sl. getRelevantMemories query memories limit = Some r \<and>
           scoredMemories (queryWords query) memories = Some sl \<and>
           (if queryWords query \<noteq> [] \<and> (\<forall>s \<in> set sl. \<not> 5 < score s)
            then length r = min 3 (length memories)
            else int (length r) \<le> limit)"
proof -
  obtain sl where sl: "scoredMemories (queryWords query) memories = Some sl"
    by (simp add: scoredMemories_eq)
  have empty_sl: "sl = []" if "memories = []"
    using sl that by (simp add: scoredMemories_eq)
  show ?thesis
  proof (cases "memories = []")
    case True
    then show ?thesis
      using assms sl empty_sl by (simp add: getRelevantMemories_def)
  next
    case False
    note nonempty = this
    show ?thesis
    proof (cases "queryWords query = []")
      case True
      then show ?thesis
        using assms sl nonempty by (simp add: getRelevantMemories_def sliceFrom_negative)
    next
      case False
      show ?thesis
      proof (cases "relevant sl = []")
        case True
        then have "\<forall>s \<in> set sl. \<not> 5 < score s"
          by (simp add: relevant_Nil_iff)
        then show ?thesis
          using sl nonempty False True
          by (simp add: getRelevantMemories_def sliceFrom_negative)
      next
        case rel: False
        then have "\<not> (\<forall>s \<in> set sl. \<not> 5 < score s)"
          by (simp add: relevant_Nil_iff)
        then show ?thesis
          using sl nonempty False rel length_slice_0 [OF assms, of "relevant sl"]
          by (auto simp: getRelevantMemories_def)
      qed
    qed
  qed
qed

theorem result_length_bound_witness:
  "(0::int) < 1 \<and>
   (\<exists>r sl. getRelevantMemories ''zebra'' [''a'', ''b'', ''c'', ''d''] 1 = Some r \<and>
      scoredMemories (queryWords ''zebra'') [''a'', ''b'', ''c'', ''d''] = Some sl \<and>
      (if queryWords ''zebra'' \<noteq> [] \<and> (\<forall>s \<in> set sl. \<not> 5 < score s)
       then length r = min 3 (length [''a'', ''b'', ''c'', ''d''])
       else int (length r) \<le> 1)) \<and>
   getRelevantMemories ''zebra'' [''a'', ''b'', ''c'', ''d''] 1 = Some [''b'', ''c'', ''d''] \<and>
   getRelevantMemories ''widget'' [''widget one'', ''widget two''] 1 = Some [''widget two'']"
proof -
  have h: "(0::int) < 1"
    by simp
  have fallback:
    "getRelevantMemories ''zebra'' [''a'', ''b'', ''c'', ''d''] 1 = Some [''b'', ''c'', ''d'']"
    by (rule zebra_result)
  have ranked:
    "getRelevantMemories ''widget'' [''widget one'', ''widget two''] 1 = Some [''widget two'']"
    by (rule widget_pair_result)
  show ?thesis
    using h fallback ranked
      result_length_bound [OF h, of "''zebra''" "[''a'', ''b'', ''c'', ''d'']"]
    by blast
qed

text \<open>
  Claim C10. For a non-empty list of memories and a query that tokenizes to no usable
  token, the limit 0 returns the whole list of memories, unchanged, and not the empty list:
  \<^verbatim>\<open>memories.slice(-0)\<close> is \<^verbatim>\<open>memories.slice(0)\<close>. The result is then longer than the limit.
\<close>

theorem empty_query_limit_zero_returns_all:
  assumes "memories \<noteq> []" and "queryWords query = []"
  shows "getRelevantMemories query memories 0 = Some memories \<and> 0 < length memories"
  using assms by (simp add: getRelevantMemories_def sliceFrom_0)

theorem empty_query_limit_zero_returns_all_witness:
  "[''a'', ''b''] \<noteq> [] \<and> queryWords ''the and for'' = [] \<and>
   getRelevantMemories ''the and for'' [''a'', ''b''] 0 = Some [''a'', ''b''] \<and>
   0 < length [''a'', ''b'']"
proof -
  have h1: "[''a'', ''b''] \<noteq> ([] :: string list)"
    by simp
  have h2: "queryWords ''the and for'' = []"
    by code_simp
  show ?thesis
    using h1 h2 empty_query_limit_zero_returns_all [OF h1 h2] by blast
qed

subsection \<open>Recency\<close>



subsection \<open>Results are memories, and there is always a result\<close>

text \<open>
  Claim C8. For every query, list of memories and integer limit, the function returns a
  list, each element of which is an element of the list of memories; for the empty list of
  memories the result is empty.
\<close>

theorem result_elements_are_memories:
  "(\<exists>r. getRelevantMemories query memories limit = Some r \<and> set r \<subseteq> set memories) \<and>
   getRelevantMemories query [] limit = Some []"
proof -
  have "set (relevant sl) \<subseteq> set memories"
    if "scoredMemories (queryWords query) memories = Some sl" for sl
    using memories_of_scored [OF that] by (auto simp: set_relevant)
  then have "set (slice 0 limit (relevant sl)) \<subseteq> set memories"
    if "scoredMemories (queryWords query) memories = Some sl" for sl
    using that set_slice [of 0 limit "relevant sl"] by blast
  then show ?thesis
    using set_sliceFrom [of "- limit" memories] set_sliceFrom [of "- 3" memories]
    by (auto simp: getRelevantMemories_def scoredMemories_eq)
qed

text \<open>
  Claim C9. The function is total: for every query, list of memories and integer limit it
  returns a list. The division of the recency term never has the divisor zero: the scoring
  of the memories succeeds on every list, the callback being run at the indices of the list
  only, and the empty list of memories returns the empty list at once.
\<close>

theorem always_returns_a_list:
  "(\<exists>r. getRelevantMemories query memories limit = Some r) \<and>
   (\<exists>sl. scoredMemories qws memories = Some sl) \<and>
   getRelevantMemories query [] limit = Some []"
  by (simp add: getRelevantMemories_def scoredMemories_eq)

end
